theory Spec2Isabelle
  imports Main
begin

section \<open>Python values and exceptions\<close>

text \<open>
  The program is \<^verbatim>\<open>src/ms_migrate_cli/ms_device.py\<close>. Exceptions are values: every
  \<^verbatim>\<open>raise\<close> of the source is an \<open>Inl\<close> branch of the model. \<open>ClickException\<close> and
  \<open>BadParameter\<close> carry the message of the source's f-string, which is all that tells
  the program's error kinds apart.
\<close>

datatype exn =
    ClickException string
  | BadParameter string
  | Abort
  | TypeError
  | ValueError
  | IndexError
  | AttributeError
  | APIError string
  | OtherException string

text \<open>
  The values of the dashboard API's JSON responses and of the keyword arguments sent
  back to it. A dictionary is an association list with distinct keys, in insertion
  order. A float is never computed with, only copied, so it is kept as a mantissa and a
  binary exponent.
\<close>

datatype pyfloat = PyFloat int int

datatype pyval =
    PNone
  | PBool bool
  | PInt int
  | PFloat pyfloat
  | PStr string
  | PList "pyval list"
  | PDict "(string \<times> pyval) list"

type_synonym pydict = "(string \<times> pyval) list"

subsection \<open>\<^verbatim>\<open>str\<close> and \<^verbatim>\<open>int\<close> on port identifiers\<close>

text \<open>
  \<^verbatim>\<open>str(n)\<close> of an integer is its decimal numeral, with a minus sign when negative.
\<close>

definition digit_char :: "nat \<Rightarrow> char" where
  "digit_char d = char_of (48 + d)"

text \<open>The characters \<open>str_nat\<close> produces; used to reason about \<open>int(str(n))\<close>.\<close>

definition is_digit :: "char \<Rightarrow> bool" where
  "is_digit c = (\<exists>d < 10. c = digit_char d)"

fun str_nat :: "nat \<Rightarrow> string" where
  "str_nat n =
     (if n < 10 then [digit_char n] else str_nat (n div 10) @ [digit_char (n mod 10)])"

declare str_nat.simps [simp del]

definition py_str :: "int \<Rightarrow> string" where
  "py_str i = (if i < 0 then CHR ''-'' # str_nat (nat (- i)) else str_nat (nat i))"

text \<open>
  \<^verbatim>\<open>int(s)\<close> of a string, base 10: surrounding whitespace is stripped, one sign is
  allowed, and the digits may be separated by single underscores. Anything else raises
  \<^verbatim>\<open>ValueError\<close>. Strings are byte strings here, so the whitespace and the digits
  are the ASCII ones; \<^verbatim>\<open>int(None)\<close> raises \<^verbatim>\<open>TypeError\<close>. The interpreter's
  configurable limit on the length of integer strings (4300 digits by default, where
  the interpreter has it) is not modelled: port identifiers are far shorter.
\<close>

definition is_space :: "char \<Rightarrow> bool" where
  "is_space c = (c \<in> set [CHR 0x09, CHR 0x0A, CHR 0x0B, CHR 0x0C, CHR 0x0D, CHR 0x20])"

definition digit_val :: "char \<Rightarrow> nat option" where
  "digit_val c =
     (let k = (of_char c :: nat) in if 48 \<le> k \<and> k \<le> 57 then Some (k - 48) else None)"

fun digits_val :: "nat \<Rightarrow> string \<Rightarrow> nat option" where
  "digits_val acc [] = Some acc"
| "digits_val acc (c # cs) =
     (if c = CHR ''_'' then
        (case cs of
           [] \<Rightarrow> None
         | d # ds \<Rightarrow>
             (case digit_val d of
                None \<Rightarrow> None
              | Some v \<Rightarrow> digits_val (10 * acc + v) ds))
      else
        (case digit_val c of
           None \<Rightarrow> None
         | Some v \<Rightarrow> digits_val (10 * acc + v) cs))"

definition parse_nat :: "string \<Rightarrow> nat option" where
  "parse_nat s =
     (case s of
        [] \<Rightarrow> None
      | c # cs \<Rightarrow> (case digit_val c of None \<Rightarrow> None | Some v \<Rightarrow> digits_val v cs))"

definition strip :: "string \<Rightarrow> string" where
  "strip s = rev (dropWhile is_space (rev (dropWhile is_space s)))"

definition parse_int :: "string \<Rightarrow> int option" where
  "parse_int s =
     (case strip s of
        [] \<Rightarrow> None
      | c # cs \<Rightarrow>
          if c = CHR ''-'' then map_option (\<lambda>n. - int n) (parse_nat cs)
          else if c = CHR ''+'' then map_option int (parse_nat cs)
          else map_option int (parse_nat (c # cs)))"

definition py_int :: "string option \<Rightarrow> exn + int" where
  "py_int v =
     (case v of
        None \<Rightarrow> Inl TypeError
      | Some s \<Rightarrow> (case parse_int s of None \<Rightarrow> Inl ValueError | Some i \<Rightarrow> Inr i))"

text \<open>An optional string inside an f-string: \<^verbatim>\<open>None\<close> prints as its name.\<close>

definition py_format :: "string option \<Rightarrow> string" where
  "py_format v = (case v of None \<Rightarrow> ''None'' | Some s \<Rightarrow> s)"

section \<open>The configuration records\<close>

text \<open>
  The two dataclasses, with the field types of their annotations; every field
  defaults to \<^verbatim>\<open>None\<close>. A response value is read into a field at the field's
  annotated type, and a value of another type is outside this typed model (the
  decoders below leave such a field unset).
\<close>

record SwitchDevice =
  name :: "string option"
  model :: "string option"
  mac :: "string option"
  tags :: "string list option"
  lat :: "pyfloat option"
  lng :: "pyfloat option"
  address :: "string option"
  "notes" :: "string option"
  floorPlanId :: "string option"

record SwitchPort =
  portId :: "string option"
  name :: "string option"
  tags :: "string list option"
  enabled :: "bool option"
  poeEnabled :: "bool option"
  type :: "string option"
  vlan :: "int option"
  voiceVlan :: "int option"
  allowedVlans :: "string option"
  isolationEnabled :: "bool option"
  rstpEnabled :: "bool option"
  stpGuard :: "string option"
  linkNegotiation :: "string option"
  portScheduleId :: "string option"
  udld :: "string option"
  accessPolicyType :: "string option"
  accessPolicyNumber :: "int option"
  macAllowList :: "string list option"
  stickyMacAllowList :: "string list option"
  stickyMacAllowListLimit :: "int option"
  stormControlEnabled :: "bool option"
  adaptivePolicyGroupId :: "string option"
  peerSgtCapable :: "bool option"
  flexibleStackingEnabled :: "bool option"
  daiTrusted :: "bool option"
  profile :: "pydict option"

definition as_str :: "pyval option \<Rightarrow> string option" where
  "as_str v = (case v of Some (PStr s) \<Rightarrow> Some s | _ \<Rightarrow> None)"

definition as_bool :: "pyval option \<Rightarrow> bool option" where
  "as_bool v = (case v of Some (PBool b) \<Rightarrow> Some b | _ \<Rightarrow> None)"

definition as_int :: "pyval option \<Rightarrow> int option" where
  "as_int v = (case v of Some (PInt i) \<Rightarrow> Some i | _ \<Rightarrow> None)"

definition as_float :: "pyval option \<Rightarrow> pyfloat option" where
  "as_float v = (case v of Some (PFloat x) \<Rightarrow> Some x | _ \<Rightarrow> None)"

definition as_dict :: "pyval option \<Rightarrow> pydict option" where
  "as_dict v = (case v of Some (PDict kvs) \<Rightarrow> Some kvs | _ \<Rightarrow> None)"

fun the_strs :: "pyval list \<Rightarrow> string list option" where
  "the_strs [] = Some []"
| "the_strs (PStr s # vs) = map_option ((#) s) (the_strs vs)"
| "the_strs (_ # vs) = None"

definition as_strs :: "pyval option \<Rightarrow> string list option" where
  "as_strs v = (case v of Some (PList vs) \<Rightarrow> the_strs vs | _ \<Rightarrow> None)"

definition str_val :: "string option \<Rightarrow> pyval" where
  "str_val v = (case v of None \<Rightarrow> PNone | Some s \<Rightarrow> PStr s)"

definition bool_val :: "bool option \<Rightarrow> pyval" where
  "bool_val v = (case v of None \<Rightarrow> PNone | Some b \<Rightarrow> PBool b)"

definition int_val :: "int option \<Rightarrow> pyval" where
  "int_val v = (case v of None \<Rightarrow> PNone | Some i \<Rightarrow> PInt i)"

definition float_val :: "pyfloat option \<Rightarrow> pyval" where
  "float_val v = (case v of None \<Rightarrow> PNone | Some x \<Rightarrow> PFloat x)"

definition dict_val :: "pydict option \<Rightarrow> pyval" where
  "dict_val v = (case v of None \<Rightarrow> PNone | Some kvs \<Rightarrow> PDict kvs)"

definition strs_val :: "string list option \<Rightarrow> pyval" where
  "strs_val v = (case v of None \<Rightarrow> PNone | Some ss \<Rightarrow> PList (map PStr ss))"

text \<open>
  \<^verbatim>\<open>inspect.signature(C).parameters\<close>: the field names, in declaration order.
\<close>

definition SwitchDevice_fields :: "string list" where
  "SwitchDevice_fields =
     [''name'', ''model'', ''mac'', ''tags'', ''lat'', ''lng'', ''address'',
      ''notes'', ''floorPlanId'']"

definition SwitchPort_fields :: "string list" where
  "SwitchPort_fields =
     [''portId'', ''name'', ''tags'', ''enabled'', ''poeEnabled'', ''type'',
      ''vlan'', ''voiceVlan'', ''allowedVlans'', ''isolationEnabled'',
      ''rstpEnabled'', ''stpGuard'', ''linkNegotiation'', ''portScheduleId'',
      ''udld'', ''accessPolicyType'', ''accessPolicyNumber'', ''macAllowList'',
      ''stickyMacAllowList'', ''stickyMacAllowListLimit'', ''stormControlEnabled'',
      ''adaptivePolicyGroupId'', ''peerSgtCapable'', ''flexibleStackingEnabled'',
      ''daiTrusted'', ''profile'']"

text \<open>
  The generated constructors, called with keyword arguments only: a keyword that is
  not a field raises \<^verbatim>\<open>TypeError\<close>, and a field with no keyword stays \<^verbatim>\<open>None\<close>.
\<close>

definition SwitchDevice_init :: "pydict \<Rightarrow> exn + SwitchDevice" where
  "SwitchDevice_init kwargs =
     (if \<exists>k \<in> set (map fst kwargs). k \<notin> set SwitchDevice_fields then Inl TypeError
      else Inr
        \<lparr>SwitchDevice.name = as_str (map_of kwargs ''name''),
         SwitchDevice.model = as_str (map_of kwargs ''model''),
         SwitchDevice.mac = as_str (map_of kwargs ''mac''),
         SwitchDevice.tags = as_strs (map_of kwargs ''tags''),
         SwitchDevice.lat = as_float (map_of kwargs ''lat''),
         SwitchDevice.lng = as_float (map_of kwargs ''lng''),
         SwitchDevice.address = as_str (map_of kwargs ''address''),
         SwitchDevice.notes = as_str (map_of kwargs ''notes''),
         SwitchDevice.floorPlanId = as_str (map_of kwargs ''floorPlanId'')\<rparr>)"

definition SwitchPort_init :: "pydict \<Rightarrow> exn + SwitchPort" where
  "SwitchPort_init kwargs =
     (if \<exists>k \<in> set (map fst kwargs). k \<notin> set SwitchPort_fields then Inl TypeError
      else Inr
        \<lparr>SwitchPort.portId = as_str (map_of kwargs ''portId''),
         SwitchPort.name = as_str (map_of kwargs ''name''),
         SwitchPort.tags = as_strs (map_of kwargs ''tags''),
         SwitchPort.enabled = as_bool (map_of kwargs ''enabled''),
         SwitchPort.poeEnabled = as_bool (map_of kwargs ''poeEnabled''),
         SwitchPort.type = as_str (map_of kwargs ''type''),
         SwitchPort.vlan = as_int (map_of kwargs ''vlan''),
         SwitchPort.voiceVlan = as_int (map_of kwargs ''voiceVlan''),
         SwitchPort.allowedVlans = as_str (map_of kwargs ''allowedVlans''),
         SwitchPort.isolationEnabled = as_bool (map_of kwargs ''isolationEnabled''),
         SwitchPort.rstpEnabled = as_bool (map_of kwargs ''rstpEnabled''),
         SwitchPort.stpGuard = as_str (map_of kwargs ''stpGuard''),
         SwitchPort.linkNegotiation = as_str (map_of kwargs ''linkNegotiation''),
         SwitchPort.portScheduleId = as_str (map_of kwargs ''portScheduleId''),
         SwitchPort.udld = as_str (map_of kwargs ''udld''),
         SwitchPort.accessPolicyType = as_str (map_of kwargs ''accessPolicyType''),
         SwitchPort.accessPolicyNumber = as_int (map_of kwargs ''accessPolicyNumber''),
         SwitchPort.macAllowList = as_strs (map_of kwargs ''macAllowList''),
         SwitchPort.stickyMacAllowList = as_strs (map_of kwargs ''stickyMacAllowList''),
         SwitchPort.stickyMacAllowListLimit = as_int (map_of kwargs ''stickyMacAllowListLimit''),
         SwitchPort.stormControlEnabled = as_bool (map_of kwargs ''stormControlEnabled''),
         SwitchPort.adaptivePolicyGroupId = as_str (map_of kwargs ''adaptivePolicyGroupId''),
         SwitchPort.peerSgtCapable = as_bool (map_of kwargs ''peerSgtCapable''),
         SwitchPort.flexibleStackingEnabled = as_bool (map_of kwargs ''flexibleStackingEnabled''),
         SwitchPort.daiTrusted = as_bool (map_of kwargs ''daiTrusted''),
         SwitchPort.profile = as_dict (map_of kwargs ''profile'')\<rparr>)"

text \<open>
  \<^verbatim>\<open>dataclasses.asdict\<close> lists every field with its (copied) value, in declaration
  order, and hands the list to the dictionary factory.
\<close>

definition SwitchDevice_asdict :: "SwitchDevice \<Rightarrow> pydict" where
  "SwitchDevice_asdict x =
     [(''name'', str_val (SwitchDevice.name x)),
      (''model'', str_val (SwitchDevice.model x)),
      (''mac'', str_val (SwitchDevice.mac x)),
      (''tags'', strs_val (SwitchDevice.tags x)),
      (''lat'', float_val (SwitchDevice.lat x)),
      (''lng'', float_val (SwitchDevice.lng x)),
      (''address'', str_val (SwitchDevice.address x)),
      (''notes'', str_val (SwitchDevice.notes x)),
      (''floorPlanId'', str_val (SwitchDevice.floorPlanId x))]"

definition SwitchPort_asdict :: "SwitchPort \<Rightarrow> pydict" where
  "SwitchPort_asdict x =
     [(''portId'', str_val (SwitchPort.portId x)),
      (''name'', str_val (SwitchPort.name x)),
      (''tags'', strs_val (SwitchPort.tags x)),
      (''enabled'', bool_val (SwitchPort.enabled x)),
      (''poeEnabled'', bool_val (SwitchPort.poeEnabled x)),
      (''type'', str_val (SwitchPort.type x)),
      (''vlan'', int_val (SwitchPort.vlan x)),
      (''voiceVlan'', int_val (SwitchPort.voiceVlan x)),
      (''allowedVlans'', str_val (SwitchPort.allowedVlans x)),
      (''isolationEnabled'', bool_val (SwitchPort.isolationEnabled x)),
      (''rstpEnabled'', bool_val (SwitchPort.rstpEnabled x)),
      (''stpGuard'', str_val (SwitchPort.stpGuard x)),
      (''linkNegotiation'', str_val (SwitchPort.linkNegotiation x)),
      (''portScheduleId'', str_val (SwitchPort.portScheduleId x)),
      (''udld'', str_val (SwitchPort.udld x)),
      (''accessPolicyType'', str_val (SwitchPort.accessPolicyType x)),
      (''accessPolicyNumber'', int_val (SwitchPort.accessPolicyNumber x)),
      (''macAllowList'', strs_val (SwitchPort.macAllowList x)),
      (''stickyMacAllowList'', strs_val (SwitchPort.stickyMacAllowList x)),
      (''stickyMacAllowListLimit'', int_val (SwitchPort.stickyMacAllowListLimit x)),
      (''stormControlEnabled'', bool_val (SwitchPort.stormControlEnabled x)),
      (''adaptivePolicyGroupId'', str_val (SwitchPort.adaptivePolicyGroupId x)),
      (''peerSgtCapable'', bool_val (SwitchPort.peerSgtCapable x)),
      (''flexibleStackingEnabled'', bool_val (SwitchPort.flexibleStackingEnabled x)),
      (''daiTrusted'', bool_val (SwitchPort.daiTrusted x)),
      (''profile'', dict_val (SwitchPort.profile x))]"

text \<open>
  The two dictionary factories: line 127 keeps the fields that are not \<^verbatim>\<open>None\<close>,
  line 194 also drops \<^verbatim>\<open>portId\<close>.
\<close>

definition update_device_kwargs :: "SwitchDevice \<Rightarrow> pydict" where
  "update_device_kwargs d = filter (\<lambda>(k, v). v \<noteq> PNone) (SwitchDevice_asdict d)"

definition update_port_kwargs :: "SwitchPort \<Rightarrow> pydict" where
  "update_port_kwargs p =
     filter (\<lambda>(k, v). v \<noteq> PNone \<and> k \<noteq> ''portId'') (SwitchPort_asdict p)"

text \<open>
  The dictionary comprehension of lines 75 and 101 keeps the recognised keys of a
  response.
\<close>

definition known_items :: "string list \<Rightarrow> pydict \<Rightarrow> pydict" where
  "known_items params response = filter (\<lambda>(k, v). k \<in> set params) response"

subsection \<open>The port-count classes\<close>

text \<open>
  \<^verbatim>\<open>min(xs, key=f)\<close> returns the first element whose key is minimal, and raises
  \<^verbatim>\<open>ValueError\<close> on an empty sequence.
\<close>

fun py_min_from :: "('a \<Rightarrow> int) \<Rightarrow> 'a \<Rightarrow> 'a list \<Rightarrow> 'a" where
  "py_min_from key best [] = best"
| "py_min_from key best (x # xs) =
     py_min_from key (if key x < key best then x else best) xs"

definition py_min :: "('a \<Rightarrow> int) \<Rightarrow> 'a list \<Rightarrow> exn + 'a" where
  "py_min key xs =
     (case xs of
        [] \<Rightarrow> Inl ValueError
      | x # rest \<Rightarrow> Inr (py_min_from key x rest))"

definition rj45_ports :: "int list" where
  "rj45_ports = [8, 24, 48]"

text \<open>The key of lines 166 and 167: \<^verbatim>\<open>lambda x: abs(x - n) if x <= n else x\<close>.\<close>

definition rj45_key :: "int \<Rightarrow> int \<Rightarrow> int" where
  "rj45_key n x = (if x \<le> n then \<bar>x - n\<bar> else x)"

definition rj45_count :: "int \<Rightarrow> exn + int" where
  "rj45_count n = py_min (rj45_key n) rj45_ports"

section \<open>The dashboard API, the operator and the program state\<close>

text \<open>
  The collaborators are outside the program, so they are parameters of the model.
  Every call of the dashboard API and every confirmation prompt is recorded, in order,
  in \<open>events\<close>; what the API answers (a JSON value, or an exception) and what the
  operator answers may depend on everything recorded so far. Console output
  (\<^verbatim>\<open>click.echo\<close>, \<^verbatim>\<open>click.secho\<close>) is not modelled.
\<close>

datatype request =
    DashboardAPI string bool
  | getDevice string
  | getDeviceSwitchPorts string
  | updateDevice string pydict
  | updateDeviceSwitchPort string "string option" pydict
  | cloneOrganizationSwitchDevices string string "string list"

datatype event = Call request | Confirm string

record env =
  respond :: "event list \<Rightarrow> request \<Rightarrow> exn + pyval"
  confirms :: "event list \<Rightarrow> string \<Rightarrow> bool"
  environ :: "string \<Rightarrow> string option"

text \<open>
  \<open>SwitchPort\<close> objects are mutated in place and shared between lists, so they live in
  a store: \<open>heap\<close> is the list of all port objects created so far and a reference is an
  index into it. A new object gets the next index.
\<close>

type_synonym ref = nat

record world =
  events :: "event list"
  heap :: "SwitchPort list"

definition call :: "env \<Rightarrow> request \<Rightarrow> world \<Rightarrow> (exn + pyval) \<times> world" where
  "call E rq w = (respond E (events w) rq, w\<lparr>events := events w @ [Call rq]\<rparr>)"

text \<open>
  \<^verbatim>\<open>click.confirm(text, abort=True)\<close> returns on an affirmative answer and raises
  \<^verbatim>\<open>click.Abort\<close> otherwise.
\<close>

definition confirm :: "env \<Rightarrow> string \<Rightarrow> world \<Rightarrow> (exn + unit) \<times> world" where
  "confirm E text w =
     (if confirms E (events w) text then Inr () else Inl Abort,
      w\<lparr>events := events w @ [Confirm text]\<rparr>)"

section \<open>Reading a switch\<close>

text \<open>
  Lines 72 to 79. Whatever goes wrong inside the \<^verbatim>\<open>try\<close> (the API raising, a response
  without \<^verbatim>\<open>items\<close>) is re-raised as one \<open>ClickException\<close>.
\<close>

definition get_switch_config ::
  "env \<Rightarrow> string \<Rightarrow> world \<Rightarrow> (exn + SwitchDevice) \<times> world" where
  "get_switch_config E serial w =
     (let (r, w') = call E (getDevice serial) w;
          failed = Inl (ClickException (''Error getting switch configuration for '' @ serial @ ''.''))
      in (case r of
            Inl e \<Rightarrow> failed
          | Inr (PDict response) \<Rightarrow>
              (case SwitchDevice_init (known_items SwitchDevice_fields response) of
                 Inl e \<Rightarrow> failed
               | Inr switch_config \<Rightarrow> Inr switch_config)
          | Inr _ \<Rightarrow> failed,
          w'))"

text \<open>
  The loop of lines 100 and 101: one new \<open>SwitchPort\<close> object per element of the
  response, in order. An element that is not a dictionary has no \<^verbatim>\<open>items\<close>.
\<close>

fun new_ports :: "pyval list \<Rightarrow> SwitchPort list \<Rightarrow> (exn + ref list) \<times> SwitchPort list" where
  "new_ports [] h = (Inr [], h)"
| "new_ports (PDict port # rest) h =
     (case SwitchPort_init (known_items SwitchPort_fields port) of
        Inl e \<Rightarrow> (Inl e, h)
      | Inr p \<Rightarrow>
          (case new_ports rest (h @ [p]) of
             (Inl e, h') \<Rightarrow> (Inl e, h')
           | (Inr ports, h') \<Rightarrow> (Inr (length h # ports), h')))"
| "new_ports (_ # rest) h = (Inl AttributeError, h)"

text \<open>
  Lines 97 to 108. The exception for an empty response is raised inside the \<^verbatim>\<open>try\<close>
  and so leaves as the same \<open>ClickException\<close> as every other failure; a response that
  is not a list either cannot be iterated, or yields no port, or yields elements
  without \<^verbatim>\<open>items\<close>.
\<close>

definition get_switch_ports ::
  "env \<Rightarrow> string \<Rightarrow> world \<Rightarrow> (exn + ref list) \<times> world" where
  "get_switch_ports E serial w =
     (let (r, w') = call E (getDeviceSwitchPorts serial) w;
          failed = Inl (ClickException (''Error getting port configurations on switch '' @ serial @ ''.''))
      in (case r of
            Inl e \<Rightarrow> (failed, w')
          | Inr (PList response) \<Rightarrow>
              (case new_ports response (heap w') of
                 (Inl e, h) \<Rightarrow> (failed, w'\<lparr>heap := h\<rparr>)
               | (Inr ports, h) \<Rightarrow>
                   (if length ports = 0 then failed else Inr ports, w'\<lparr>heap := h\<rparr>))
          | Inr _ \<Rightarrow> (failed, w')))"

section \<open>Writing a switch\<close>

text \<open>
  Lines 125 to 134. The caller's device object is renamed in place, so the renamed
  device is returned next to the result.
\<close>

definition update_switch_config ::
  "env \<Rightarrow> SwitchDevice \<Rightarrow> string \<Rightarrow> world \<Rightarrow> (exn + unit) \<times> SwitchDevice \<times> world" where
  "update_switch_config E source_device target_serial w =
     (let renamed = source_device
            \<lparr>SwitchDevice.name := Some (py_format (SwitchDevice.name source_device) @ ''-clone'')\<rparr>;
          (r, w') = call E (updateDevice target_serial (update_device_kwargs renamed)) w
      in (case r of
            Inl e \<Rightarrow>
              Inl (ClickException
                    (''Error updating switch configuration for '' @ target_serial @ ''.''))
          | Inr response \<Rightarrow> Inr (),
          renamed, w'))"

text \<open>Python slices with a bound that may be negative.\<close>

definition slice_to :: "int \<Rightarrow> 'a list \<Rightarrow> 'a list" where
  "slice_to n xs = (if n < 0 then take (length xs - nat (- n)) xs else take (nat n) xs)"

definition slice_from :: "int \<Rightarrow> 'a list \<Rightarrow> 'a list" where
  "slice_from n xs = (if n < 0 then drop (length xs - nat (- n)) xs else drop (nat n) xs)"

text \<open>
  Lines 175 to 177: for each \<open>n\<close> of the range, a copy of the first base port is
  appended as a new object, and the entry at index \<open>n\<close> gets the identifier \<open>n + 1\<close>.
\<close>

fun extend_rj45 ::
  "nat list \<Rightarrow> ref list \<Rightarrow> SwitchPort list \<Rightarrow> (exn + ref list) \<times> SwitchPort list" where
  "extend_rj45 [] ports h = (Inr ports, h)"
| "extend_rj45 (n # ns) ports h =
     (case ports of
        [] \<Rightarrow> (Inl IndexError, h)
      | first # _ \<Rightarrow>
          (case SwitchPort_init (SwitchPort_asdict (h ! first)) of
             Inl e \<Rightarrow> (Inl e, h)
           | Inr p \<Rightarrow>
               (let ports' = ports @ [length h]; h' = h @ [p]
                in if n < length ports'
                   then extend_rj45 ns ports'
                          (h'[ports' ! n := (h' ! (ports' ! n))\<lparr>portId := Some (py_str (int n + 1))\<rparr>])
                   else (Inl IndexError, h'))))"

text \<open>
  Lines 178 and 179, and 182 and 183 with \<open>delta = - 24\<close>: each uplink port object gets
  its identifier moved by \<open>delta\<close>, in place.
\<close>

fun renumber_sfp ::
  "int \<Rightarrow> ref list \<Rightarrow> SwitchPort list \<Rightarrow> (exn + unit) \<times> SwitchPort list" where
  "renumber_sfp delta [] h = (Inr (), h)"
| "renumber_sfp delta (port # rest) h =
     (case py_int (portId (h ! port)) of
        Inl e \<Rightarrow> (Inl e, h)
      | Inr k \<Rightarrow>
          renumber_sfp delta rest (h[port := (h ! port)\<lparr>portId := Some (py_str (k + delta))\<rparr>]))"

text \<open>Lines 159 to 189: the adjusted list of source ports, or the exception raised.\<close>

definition adjusted_source_ports ::
  "ref list \<Rightarrow> string \<Rightarrow> int \<Rightarrow> SwitchPort list \<Rightarrow> (exn + ref list) \<times> SwitchPort list" where
  "adjusted_source_ports source_ports target_serial target_port_count h =
     (let source_port_count = int (length source_ports) in
      if source_port_count = 0
      then (Inl (ClickException (''No ports found on source switch '' @ target_serial @ ''.'')), h)
      else
        (case rj45_count source_port_count of
           Inl e \<Rightarrow> (Inl e, h)
         | Inr source_rj45_count \<Rightarrow>
        (case rj45_count target_port_count of
           Inl e \<Rightarrow> (Inl e, h)
         | Inr target_rj45_count \<Rightarrow>
        (let source_rj45_ports = slice_to source_rj45_count source_ports;
             source_sfp_ports = slice_from source_rj45_count source_ports
         in if source_rj45_count \<noteq> target_rj45_count
            then
              if source_rj45_count = 24 \<and> target_rj45_count = 48
              then
                (case extend_rj45 [24..<48] source_rj45_ports h of
                   (Inl e, h1) \<Rightarrow> (Inl e, h1)
                 | (Inr extended, h1) \<Rightarrow>
                     (case renumber_sfp 24 source_sfp_ports h1 of
                        (Inl e, h2) \<Rightarrow> (Inl e, h2)
                      | (Inr _, h2) \<Rightarrow> (Inr (extended @ source_sfp_ports), h2)))
              else if source_rj45_count = 48 \<and> target_rj45_count = 24
              then
                (case renumber_sfp (- 24) source_sfp_ports h of
                   (Inl e, h2) \<Rightarrow> (Inl e, h2)
                 | (Inr _, h2) \<Rightarrow> (Inr (slice_to 24 source_rj45_ports @ source_sfp_ports), h2))
              else
                (Inl (BadParameter
                       (''Incompatible port counts ('' @ py_str source_rj45_count @
                        ''-port switch -> '' @ py_str target_rj45_count @ ''-port switch).'')), h)
            else (Inr (source_rj45_ports @ source_sfp_ports), h)))))"

text \<open>Lines 191 to 200: one update call per adjusted port, stopping at the first failure.\<close>

fun update_each_port :: "env \<Rightarrow> string \<Rightarrow> ref list \<Rightarrow> world \<Rightarrow> (exn + unit) \<times> world" where
  "update_each_port E target_serial [] w = (Inr (), w)"
| "update_each_port E target_serial (r # rest) w =
     (let port = heap w ! r;
          (res, w') = call E (updateDeviceSwitchPort target_serial (portId port)
                               (update_port_kwargs port)) w
      in (case res of
            Inl e \<Rightarrow>
              (Inl (ClickException
                     (''Error updating port '' @ py_format (portId port) @ '' on switch '' @
                      target_serial @ ''.'')), w')
          | Inr response \<Rightarrow> update_each_port E target_serial rest w'))"

definition update_switch_ports ::
  "env \<Rightarrow> ref list \<Rightarrow> string \<Rightarrow> int \<Rightarrow> world \<Rightarrow> (exn + unit) \<times> world" where
  "update_switch_ports E source_ports target_serial target_port_count w =
     (case adjusted_source_ports source_ports target_serial target_port_count (heap w) of
        (Inl e, h) \<Rightarrow> (Inl e, w\<lparr>heap := h\<rparr>)
      | (Inr adjusted, h) \<Rightarrow> update_each_port E target_serial adjusted (w\<lparr>heap := h\<rparr>))"

text \<open>Lines 220 to 224.\<close>

definition clone_config ::
  "env \<Rightarrow> string \<Rightarrow> string \<Rightarrow> string \<Rightarrow> world \<Rightarrow> (exn + unit) \<times> world" where
  "clone_config E organization_id source_serial target_serial w =
     (let (r, w') = call E (cloneOrganizationSwitchDevices organization_id source_serial
                             [target_serial]) w
      in (case r of
            Inl e \<Rightarrow>
              Inl (ClickException
                    (''Error cloning configuration from '' @ source_serial @ '' to '' @
                     target_serial @ ''.''))
          | Inr response \<Rightarrow> Inr (),
          w'))"

definition get_api_key_from_env :: "env \<Rightarrow> exn + string" where
  "get_api_key_from_env E =
     (case environ E ''MERAKI_DASHBOARD_API_KEY'' of
        None \<Rightarrow>
          Inl (BadParameter
                ''No API key provided. Please set the environment variable MERAKI_DASHBOARD_API_KEY.'')
      | Some key \<Rightarrow> Inr key)"

section \<open>The migrate command\<close>

definition update_allowed_tag :: string where
  "update_allowed_tag = ''undeployed''"

text \<open>
  Lines 346 to 353, the checks before the target is touched. The membership test of
  line 348 is on the \<open>tags\<close> field as it is: on \<^verbatim>\<open>None\<close> it raises \<^verbatim>\<open>TypeError\<close>.
\<close>

definition migrate_checks ::
  "env \<Rightarrow> bool \<Rightarrow> string \<Rightarrow> string \<Rightarrow> SwitchDevice \<Rightarrow> world \<Rightarrow> (exn + unit) \<times> world" where
  \<open>migrate_checks E yes source_serial target_serial target_device w =
     (if SwitchDevice.name target_device = mac target_device
      then (Inl (ClickException
                  (''Target switch '' @ target_serial @ '' appears to be in use (name = mac address).'')), w)
      else
        (case SwitchDevice.tags target_device of
           None \<Rightarrow> (Inl TypeError, w)
         | Some target_tags \<Rightarrow>
             if update_allowed_tag \<notin> set target_tags
             then (Inl (ClickException
                         (''Target switch '' @ target_serial @ '' does not have the "'' @
                          update_allowed_tag @ ''" tag.'')), w)
             else if \<not> yes
             then confirm E (''Continue copying configuration from '' @ source_serial @ '' to '' @
                             target_serial @ ''?'') w
             else (Inr (), w)))\<close>

text \<open>
  Lines 329 to 356: both devices are read, the target is checked, both port lists are
  read.
\<close>

definition migrate_read ::
  "env \<Rightarrow> string \<Rightarrow> bool \<Rightarrow> bool \<Rightarrow> string \<Rightarrow> string \<Rightarrow> world \<Rightarrow>
     (exn + SwitchDevice \<times> SwitchDevice \<times> ref list \<times> ref list) \<times> world" where
  "migrate_read E api_key quiet yes source_serial target_serial w0 =
     (case call E (DashboardAPI api_key quiet) w0 of
        (Inl e, w1) \<Rightarrow> (Inl e, w1)
      | (Inr dashboard_api, w1) \<Rightarrow>
     (case get_switch_config E source_serial w1 of
        (Inl e, w2) \<Rightarrow> (Inl e, w2)
      | (Inr source_device, w2) \<Rightarrow>
     (case get_switch_config E target_serial w2 of
        (Inl e, w3) \<Rightarrow> (Inl e, w3)
      | (Inr target_device, w3) \<Rightarrow>
     (case migrate_checks E yes source_serial target_serial target_device w3 of
        (Inl e, w4) \<Rightarrow> (Inl e, w4)
      | (Inr _, w4) \<Rightarrow>
     (case get_switch_ports E source_serial w4 of
        (Inl e, w5) \<Rightarrow> (Inl e, w5)
      | (Inr source_ports, w5) \<Rightarrow>
     (case get_switch_ports E target_serial w5 of
        (Inl e, w6) \<Rightarrow> (Inl e, w6)
      | (Inr target_ports, w6) \<Rightarrow>
          (Inr (source_device, target_device, source_ports, target_ports), w6)))))))"

text \<open>Lines 358 to 363: the optional clone, the ports, the device.\<close>

definition migrate_write ::
  "env \<Rightarrow> string option \<Rightarrow> string \<Rightarrow> string \<Rightarrow> SwitchDevice \<Rightarrow> SwitchDevice \<Rightarrow>
     ref list \<Rightarrow> ref list \<Rightarrow> world \<Rightarrow> (exn + unit) \<times> world" where
  "migrate_write E organization_id source_serial target_serial source_device target_device
       source_ports target_ports w =
     (case (if model source_device = model target_device \<and> organization_id \<noteq> None
            then clone_config E (the organization_id) source_serial target_serial w
            else (Inr (), w)) of
        (Inl e, w1) \<Rightarrow> (Inl e, w1)
      | (Inr _, w1) \<Rightarrow>
     (case update_switch_ports E source_ports target_serial (int (length target_ports)) w1 of
        (Inl e, w2) \<Rightarrow> (Inl e, w2)
      | (Inr _, w2) \<Rightarrow>
     (case update_switch_config E source_device target_serial w2 of
        (r, renamed, w3) \<Rightarrow> (r, w3))))"

text \<open>
  Lines 325 to 367. Only \<^verbatim>\<open>meraki.APIError\<close> is caught, and turned into
  \<^verbatim>\<open>click.Abort\<close>; every other exception leaves the command as it is.
\<close>

definition migrate ::
  "env \<Rightarrow> string \<Rightarrow> string option \<Rightarrow> bool \<Rightarrow> bool \<Rightarrow> string \<Rightarrow> string \<Rightarrow> world \<Rightarrow>
     (exn + unit) \<times> world" where
  "migrate E api_key organization_id quiet yes source_serial target_serial w =
     (case (if api_key = ''MERAKI_DASHBOARD_API_KEY'' then get_api_key_from_env E
            else Inr api_key) of
        Inl e \<Rightarrow> (Inl e, w)
      | Inr key \<Rightarrow>
          (case (case migrate_read E key quiet yes source_serial target_serial w of
                   (Inl e, w') \<Rightarrow> (Inl e, w')
                 | (Inr (source_device, target_device, source_ports, target_ports), w') \<Rightarrow>
                     migrate_write E organization_id source_serial target_serial
                       source_device target_device source_ports target_ports w') of
             (Inl (APIError m), w') \<Rightarrow> (Inl Abort, w')
           | (r, w') \<Rightarrow> (r, w')))"

section \<open>Example switches\<close>

text \<open>
  Concrete inputs for the instances below: \<open>blank_port\<close> is \<^verbatim>\<open>SwitchPort()\<close>, a
  store of \<open>n\<close> port objects numbered from 1, and a dashboard that serves ten-port
  switches, with the device record given by \<open>device\<close>, and raises \<open>APIError\<close> on the
  requests selected by \<open>fails\<close>.
\<close>

definition blank_port :: SwitchPort where
  "blank_port =
     \<lparr>portId = None, SwitchPort.name = None, SwitchPort.tags = None,
       enabled = None, poeEnabled = None, type = None, vlan = None,
       voiceVlan = None, allowedVlans = None, isolationEnabled = None,
       rstpEnabled = None, stpGuard = None, linkNegotiation = None,
       portScheduleId = None, udld = None, accessPolicyType = None,
       accessPolicyNumber = None, macAllowList = None, stickyMacAllowList = None,
       stickyMacAllowListLimit = None, stormControlEnabled = None,
       adaptivePolicyGroupId = None, peerSgtCapable = None,
       flexibleStackingEnabled = None, daiTrusted = None, profile = None\<rparr>"

definition numbered_port :: "nat \<Rightarrow> SwitchPort" where
  "numbered_port i = blank_port\<lparr>portId := Some (py_str (int i)), vlan := Some 10\<rparr>"

definition numbered_ports :: "nat \<Rightarrow> world" where
  "numbered_ports n = \<lparr>events = [], heap = map numbered_port [1 ..< Suc n]\<rparr>"

definition example_device :: "string \<Rightarrow> pyval" where
  "example_device serial =
     PDict [(''serial'', PStr serial), (''name'', PStr (''sw-'' @ serial)),
            (''mac'', PStr ''e0:55:3d:00:00:01''), (''model'', PStr ''MS120-8''),
            (''tags'', PList [PStr ''undeployed'']), (''networkId'', PStr ''N_1'')]"

text \<open>A device record without a \<^verbatim>\<open>tags\<close> key.\<close>

definition untagged_device :: "string \<Rightarrow> pyval" where
  "untagged_device serial =
     PDict [(''serial'', PStr serial), (''name'', PStr (''sw-'' @ serial)),
            (''mac'', PStr ''e0:55:3d:00:00:01''), (''model'', PStr ''MS120-8'')]"


definition example_port :: "nat \<Rightarrow> pyval" where
  "example_port i =
     PDict [(''portId'', PStr (py_str (int i))), (''vlan'', PInt 10),
            (''linkNegotiationCapabilities'', PList [])]"

definition example_api :: "(string \<Rightarrow> pyval) \<Rightarrow> (request \<Rightarrow> bool) \<Rightarrow> env" where
  "example_api device fails =
     \<lparr>respond = (\<lambda>history rq.
        if fails rq then Inl (APIError ''500 Internal Server Error'')
        else (case rq of
                getDevice serial \<Rightarrow> Inr (device serial)
              | getDeviceSwitchPorts serial \<Rightarrow> Inr (PList (map example_port [1 ..< 11]))
              | _ \<Rightarrow> Inr (PDict []))),
      confirms = (\<lambda>history text. True),
      environ = (\<lambda>var. None)\<rparr>"

definition never :: "request \<Rightarrow> bool" where
  "never rq = False"

fun is_clone :: "request \<Rightarrow> bool" where
  "is_clone (cloneOrganizationSwitchDevices organization_id source_serial targets) = True"
| "is_clone _ = False"

definition no_events :: world where
  "no_events = \<lparr>events = [], heap = []\<rparr>"

definition fresh_device :: SwitchDevice where
  "fresh_device =
     \<lparr>SwitchDevice.name = None, model = Some ''MS120-8'', mac = Some ''e0:55:3d:00:00:01'',
      SwitchDevice.tags = None, lat = None, lng = None, address = None, notes = None,
      floorPlanId = None\<rparr>"

section \<open>Class selection\<close>

lemma rj45_count_cases:
  "rj45_count n = Inr (if 48 \<le> n then 48 else if 24 \<le> n then 24 else 8)"
  by (simp add: rj45_count_def py_min_def rj45_ports_def rj45_key_def)

text \<open>
  Claim C5. For every positive integer \<open>n\<close> the class selection of lines 163 to 167
  returns a member \<open>c\<close> of \<open>{8, 24, 48}\<close>; when some class is at most \<open>n\<close>, \<open>c\<close> is the
  largest such class, and otherwise \<open>c\<close> is the smallest class, 8. On each of 8, 24
  and 48 it returns its argument.
\<close>

theorem rj45_count_largest_at_or_below:
  "0 < n \<Longrightarrow>
     (\<exists>c. rj45_count n = Inr c \<and> c \<in> set rj45_ports \<and>
        (if \<exists>k \<in> set rj45_ports. k \<le> n
         then c \<le> n \<and> (\<forall>k \<in> set rj45_ports. k \<le> n \<longrightarrow> k \<le> c)
         else c = 8 \<and> (\<forall>k \<in> set rj45_ports. c \<le> k))) \<and>
     (\<forall>k \<in> set rj45_ports. rj45_count k = Inr k)"
  by (simp add: rj45_count_cases rj45_ports_def)

theorem rj45_count_largest_at_or_below_witness:
  "(0::int) < 30 \<and> rj45_count 30 = Inr 24 \<and> rj45_count 5 = Inr 8 \<and> rj45_count 48 = Inr 48"
  using rj45_count_largest_at_or_below [of 30] rj45_count_largest_at_or_below [of 5]
  by (auto simp: rj45_ports_def)

section \<open>Reconciliation errors\<close>

lemma adjusted_source_ports_incompatible:
  assumes "source_ports \<noteq> []"
    and "rj45_count (int (length source_ports)) = Inr source_class"
    and "rj45_count target_port_count = Inr target_class"
    and "source_class \<noteq> target_class"
    and "\<not> (source_class = 24 \<and> target_class = 48)"
    and "\<not> (source_class = 48 \<and> target_class = 24)"
  shows "adjusted_source_ports source_ports target_serial target_port_count h =
     (Inl (BadParameter
            (''Incompatible port counts ('' @ py_str source_class @ ''-port switch -> '' @
             py_str target_class @ ''-port switch).'')), h)"
  using assms by (auto simp: adjusted_source_ports_def Let_def)

text \<open>
  Claim C7. Whatever the target's port count, \<open>update_switch_ports\<close> on an empty
  source list raises the \<open>ClickException\<close> of line 161 (the spec's
  EmptySourceTopology) and leaves the state as it was: no event is recorded, so no
  port of the target is updated.
\<close>

theorem update_switch_ports_empty_source:
  "update_switch_ports E [] target_serial target_port_count w =
     (Inl (ClickException (''No ports found on source switch '' @ target_serial @ ''.'')), w)
   \<and> events (snd (update_switch_ports E [] target_serial target_port_count w)) = events w"
  by (simp add: update_switch_ports_def adjusted_source_ports_def)

text \<open>
  Claim C6. For a non-empty source list whose class and the target's class differ and
  are neither 24 and 48 nor 48 and 24, \<open>update_switch_ports\<close> raises the
  \<open>BadParameter\<close> of line 185 (the spec's IncompatibleTopology) and leaves the state
  as it was: no event is recorded, so no port of the target is updated.
\<close>

theorem update_switch_ports_incompatible:
  assumes "source_ports \<noteq> []"
    and "rj45_count (int (length source_ports)) = Inr source_class"
    and "rj45_count target_port_count = Inr target_class"
    and "source_class \<noteq> target_class"
    and "\<not> (source_class = 24 \<and> target_class = 48)"
    and "\<not> (source_class = 48 \<and> target_class = 24)"
  shows "update_switch_ports E source_ports target_serial target_port_count w =
     (Inl (BadParameter
            (''Incompatible port counts ('' @ py_str source_class @ ''-port switch -> '' @
             py_str target_class @ ''-port switch).'')), w)
   \<and> events (snd (update_switch_ports E source_ports target_serial target_port_count w)) = events w"
  by (simp add: update_switch_ports_def adjusted_source_ports_incompatible [OF assms])

theorem update_switch_ports_incompatible_witness:
  "[0 ..< 10] \<noteq> ([] :: ref list) \<and> rj45_count (int (length [0 ..< 10])) = Inr 8 \<and>
   rj45_count 28 = Inr 24 \<and>
   update_switch_ports (example_api example_device never) [0 ..< 10] ''Q2-B'' 28 (numbered_ports 10) =
     (Inl (BadParameter ''Incompatible port counts (8-port switch -> 24-port switch).''),
      numbered_ports 10)"
proof -
  have a: "[0 ..< 10] \<noteq> ([] :: ref list)" by simp
  have b: "rj45_count (int (length [0 ..< 10])) = Inr 8" by (simp add: rj45_count_cases)
  have c: "rj45_count 28 = Inr 24" by (simp add: rj45_count_cases)
  have s8: "py_str 8 = ''8''" by code_simp
  have s24: "py_str 24 = ''24''" by code_simp
  show ?thesis
    using update_switch_ports_incompatible
            [OF a b c, of "example_api example_device never" "''Q2-B''" "numbered_ports 10"]
          a b c s8 s24
    by simp
qed

section \<open>Serialisation\<close>










section \<open>The device update\<close>

lemma first_kept:
  "v \<noteq> PNone \<Longrightarrow> map_of (filter (\<lambda>(k, v). v \<noteq> PNone) ((k, v) # rest)) k = Some v"
  by simp

text \<open>
  Claim C10. When the source device's name is unset, \<open>update_switch_config\<close> renames it
  to \<open>None-clone\<close> and the one call it makes, \<open>updateDevice\<close> on the target, carries that
  string under the key \<open>name\<close>: the unset name is not omitted from the update.
\<close>

theorem update_switch_config_unset_name:
  assumes "SwitchDevice.name source_device = None"
  shows "\<exists>r renamed kwargs.
           update_switch_config E source_device target_serial w =
             (r, renamed, w\<lparr>events := events w @ [Call (updateDevice target_serial kwargs)]\<rparr>) \<and>
           SwitchDevice.name renamed = Some ''None-clone'' \<and>
           kwargs = update_device_kwargs renamed \<and>
           map_of kwargs ''name'' = Some (PStr ''None-clone'')"
proof -
  define renamed where
    "renamed = source_device\<lparr>SwitchDevice.name := Some (py_format (SwitchDevice.name source_device) @ ''-clone'')\<rparr>"
  define r :: "exn + unit" where
    "r = (case respond E (events w) (updateDevice target_serial (update_device_kwargs renamed)) of
            Inl e \<Rightarrow>
              Inl (ClickException
                    (''Error updating switch configuration for '' @ target_serial @ ''.''))
          | Inr response \<Rightarrow> Inr ())"
  have name: "SwitchDevice.name renamed = Some ''None-clone''"
    using assms by (simp add: renamed_def py_format_def)
  have asdict: "SwitchDevice_asdict renamed =
          (''name'', PStr ''None-clone'') # tl (SwitchDevice_asdict renamed)"
    by (simp add: SwitchDevice_asdict_def name str_val_def)
  have kept: "map_of (update_device_kwargs renamed) ''name'' = Some (PStr ''None-clone'')"
    unfolding update_device_kwargs_def by (subst asdict, rule first_kept, simp)
  have run: "update_switch_config E source_device target_serial w =
          (r, renamed,
           w\<lparr>events := events w @
              [Call (updateDevice target_serial (update_device_kwargs renamed))]\<rparr>)"
    by (simp add: update_switch_config_def call_def Let_def renamed_def r_def)
  show ?thesis
    by (intro exI [of _ r] exI [of _ renamed] exI [of _ "update_device_kwargs renamed"] conjI
          run name kept refl)
qed

theorem update_switch_config_unset_name_witness:
  "SwitchDevice.name fresh_device = None \<and>
   (\<exists>r renamed kwargs.
      update_switch_config (example_api example_device never) fresh_device ''Q2-B'' no_events =
        (r, renamed, no_events\<lparr>events := events no_events @ [Call (updateDevice ''Q2-B'' kwargs)]\<rparr>) \<and>
      map_of kwargs ''name'' = Some (PStr ''None-clone''))"
proof -
  have a: "SwitchDevice.name fresh_device = None" by (simp add: fresh_device_def)
  from update_switch_config_unset_name [OF a, of "example_api example_device never" "''Q2-B''" no_events]
  obtain r renamed kwargs where
    "update_switch_config (example_api example_device never) fresh_device ''Q2-B'' no_events =
        (r, renamed, no_events\<lparr>events := events no_events @ [Call (updateDevice ''Q2-B'' kwargs)]\<rparr>)"
    "map_of kwargs ''name'' = Some (PStr ''None-clone'')"
    by (elim exE conjE)
  then show ?thesis using a by (intro conjI exI)
qed

section \<open>The checks on the target\<close>

lemma migrate_checks_cases:
  \<open>migrate_checks E yes source_serial target_serial target_device w =
     (if SwitchDevice.name target_device = mac target_device
      then (Inl (ClickException
                  (''Target switch '' @ target_serial @
                   '' appears to be in use (name = mac address).'')), w)
      else if SwitchDevice.tags target_device = None
      then (Inl TypeError, w)
      else if ''undeployed'' \<notin> set (the (SwitchDevice.tags target_device))
      then (Inl (ClickException
                  (''Target switch '' @ target_serial @
                   '' does not have the "undeployed" tag.'')), w)
      else if yes then (Inr (), w)
      else (if confirms E (events w)
                 (''Continue copying configuration from '' @ source_serial @ '' to '' @
                  target_serial @ ''?'')
            then Inr () else Inl Abort,
            w\<lparr>events := events w @
               [Confirm (''Continue copying configuration from '' @ source_serial @ '' to '' @
                         target_serial @ ''?'')]\<rparr>))\<close>
  by (simp add: migrate_checks_def update_allowed_tag_def confirm_def split: option.splits)

text \<open>
  Claim C9. For a target whose \<open>tags\<close> field is unset and whose name differs from its
  mac, the checks raise \<open>TypeError\<close> from the membership test of line 348, with nothing
  recorded, and not the \<open>ClickException\<close> of line 349.
\<close>

theorem migrate_checks_unset_tags:
  assumes "SwitchDevice.tags target_device = None"
    and "SwitchDevice.name target_device \<noteq> mac target_device"
  shows \<open>migrate_checks E yes source_serial target_serial target_device w = (Inl TypeError, w) \<and>
         fst (migrate_checks E yes source_serial target_serial target_device w) \<noteq>
           Inl (ClickException
                 (''Target switch '' @ target_serial @ '' does not have the "undeployed" tag.''))\<close>
  using assms by (simp add: migrate_checks_cases)

theorem migrate_checks_unset_tags_witness:
  "SwitchDevice.tags fresh_device = None \<and> SwitchDevice.name fresh_device \<noteq> mac fresh_device \<and>
   migrate_checks (example_api example_device never) False ''Q2-A'' ''Q2-B'' fresh_device no_events =
     (Inl TypeError, no_events)"
proof -
  have a: "SwitchDevice.tags fresh_device = None" by (simp add: fresh_device_def)
  have b: "SwitchDevice.name fresh_device \<noteq> mac fresh_device" by (simp add: fresh_device_def)
  from migrate_checks_unset_tags [OF a b] show ?thesis using a b by simp
qed

text \<open>
  Claim C2 on a target that is not in use and has no \<open>tags\<close> field: the dashboard
  serves device records without a \<open>tags\<close> key, whose name differs from the mac. The
  tag \<open>undeployed\<close> is absent, yet the run does not end with the \<open>ClickException\<close> of
  line 349 but with the \<open>TypeError\<close> of line 348, which \<open>migrate\<close> does not catch. By
  \<open>migrate_checks_cases\<close> this is the only case in which the checks differ from the
  claim.
\<close>

theorem migrate_untagged_target:
  "migrate (example_api untagged_device never) ''key'' None False False ''Q2-A'' ''Q2-B'' no_events =
     (Inl TypeError,
      \<lparr>events = [Call (DashboardAPI ''key'' False), Call (getDevice ''Q2-A''),
                 Call (getDevice ''Q2-B'')],
       heap = []\<rparr>)"
  by code_simp

section \<open>Port identifiers as numbers\<close>

lemma digit_val_digit_char: "d < 10 \<Longrightarrow> digit_val (digit_char d) = Some d"
  by (simp add: digit_val_def digit_char_def Let_def)

lemma digit_char_plain:
  assumes "d < 10"
  shows "digit_char d \<noteq> CHR ''_''" "digit_char d \<noteq> CHR ''-''" "digit_char d \<noteq> CHR ''+''"
    "\<not> is_space (digit_char d)"
proof -
  have "of_char (digit_char d) = 48 + d"
    using assms by (simp add: digit_char_def)
  moreover have "of_char (CHR ''_'') = (95 :: nat)" "of_char (CHR ''-'') = (45 :: nat)"
    "of_char (CHR ''+'') = (43 :: nat)" "of_char (CHR 0x09) = (9 :: nat)"
    "of_char (CHR 0x0A) = (10 :: nat)" "of_char (CHR 0x0B) = (11 :: nat)"
    "of_char (CHR 0x0C) = (12 :: nat)" "of_char (CHR 0x0D) = (13 :: nat)"
    "of_char (CHR 0x20) = (32 :: nat)"
    by simp_all
  ultimately show "digit_char d \<noteq> CHR ''_''" "digit_char d \<noteq> CHR ''-''"
    "digit_char d \<noteq> CHR ''+''" "\<not> is_space (digit_char d)"
    using assms unfolding is_space_def by (auto simp del: of_char_eq_iff)
qed

lemma digits_val_snoc:
  assumes "\<forall>c \<in> set ds. is_digit c" and "d < 10"
  shows "digits_val acc (ds @ [digit_char d]) = map_option (\<lambda>a. 10 * a + d) (digits_val acc ds)"
  using assms(1)
proof (induction ds arbitrary: acc)
  case Nil
  show ?case using assms(2) by (simp add: digit_char_plain digit_val_digit_char)
next
  case (Cons c cs)
  then obtain v where v: "v < 10" "c = digit_char v" by (auto simp: is_digit_def)
  with Cons show ?case by (simp add: digit_char_plain digit_val_digit_char)
qed

lemma str_nat_digits: "\<forall>c \<in> set (str_nat n). is_digit c"
proof (induction n rule: str_nat.induct)
  case (1 n)
  show ?case
  proof (cases "n < 10")
    case True
    then show ?thesis by (subst str_nat.simps) (auto simp: is_digit_def)
  next
    case False
    have "n mod 10 < 10" by simp
    then have "is_digit (digit_char (n mod 10))" unfolding is_digit_def by blast
    with False 1 show ?thesis by (subst str_nat.simps) auto
  qed
qed

lemma str_nat_nonempty: "str_nat n \<noteq> []"
  by (subst str_nat.simps) simp

lemma digits_val_str_nat: "digits_val 0 (str_nat n) = Some n"
proof (induction n rule: str_nat.induct)
  case (1 n)
  show ?case
  proof (cases "n < 10")
    case True
    then show ?thesis
      by (subst str_nat.simps) (simp add: digit_char_plain digit_val_digit_char)
  next
    case False
    have "digits_val 0 (str_nat (n div 10) @ [digit_char (n mod 10)]) =
            map_option (\<lambda>a. 10 * a + n mod 10) (digits_val 0 (str_nat (n div 10)))"
      by (rule digits_val_snoc) (simp_all add: str_nat_digits)
    with False 1 show ?thesis by (subst str_nat.simps) simp
  qed
qed

lemma parse_nat_digit_first:
  assumes "is_digit c"
  shows "parse_nat (c # cs) = digits_val 0 (c # cs)"
proof -
  from assms obtain v where "v < 10" "c = digit_char v" by (auto simp: is_digit_def)
  then show ?thesis by (simp add: parse_nat_def digit_char_plain digit_val_digit_char)
qed

lemma parse_nat_str_nat: "parse_nat (str_nat n) = Some n"
proof -
  obtain c cs where s: "str_nat n = c # cs" using str_nat_nonempty [of n] by (cases "str_nat n") auto
  with str_nat_digits [of n] have "is_digit c" by simp
  then show ?thesis using digits_val_str_nat [of n] s by (simp add: parse_nat_digit_first)
qed

lemma strip_plain:
  assumes "s \<noteq> []" and "\<not> is_space (hd s)" and "\<not> is_space (last s)"
  shows "strip s = s"
proof -
  have "dropWhile is_space s = s" using assms(1,2) by (cases s) auto
  moreover have "dropWhile is_space (rev s) = rev s"
    using assms(1,3) by (cases "rev s") (auto simp: last_rev [symmetric] simp del: last_rev)
  ultimately show ?thesis by (simp add: strip_def)
qed

lemma is_digit_plain:
  assumes "is_digit c"
  shows "\<not> is_space c" "c \<noteq> CHR ''-''" "c \<noteq> CHR ''+''"
  using assms by (auto simp: is_digit_def digit_char_plain)

lemma strip_str_nat: "strip (str_nat n) = str_nat n"
proof (rule strip_plain)
  show "str_nat n \<noteq> []" by (rule str_nat_nonempty)
  have "hd (str_nat n) \<in> set (str_nat n)" "last (str_nat n) \<in> set (str_nat n)"
    by (simp_all add: str_nat_nonempty)
  then show "\<not> is_space (hd (str_nat n))" "\<not> is_space (last (str_nat n))"
    using str_nat_digits [of n] by (auto dest: is_digit_plain(1))
qed

lemma parse_int_py_str: "parse_int (py_str i) = Some i"
proof (cases "i < 0")
  case True
  have "\<not> is_space (CHR ''-'')" by (simp add: is_space_def)
  moreover have "last (CHR ''-'' # str_nat (nat (- i))) = last (str_nat (nat (- i)))"
    by (simp add: str_nat_nonempty)
  moreover have "\<not> is_space (last (str_nat (nat (- i))))"
    using str_nat_digits [of "nat (- i)"] last_in_set [OF str_nat_nonempty [of "nat (- i)"]]
    by (auto dest: is_digit_plain(1))
  ultimately have "strip (CHR ''-'' # str_nat (nat (- i))) = CHR ''-'' # str_nat (nat (- i))"
    by (intro strip_plain) simp_all
  with True show ?thesis by (simp add: parse_int_def py_str_def parse_nat_str_nat)
next
  case False
  obtain c cs where s: "str_nat (nat i) = c # cs"
    using str_nat_nonempty [of "nat i"] by (cases "str_nat (nat i)") auto
  with str_nat_digits [of "nat i"] have "is_digit c" by simp
  then have "c \<noteq> CHR ''-''" "c \<noteq> CHR ''+''" by (simp_all add: is_digit_plain)
  moreover have "parse_nat (c # cs) = Some (nat i)" using parse_nat_str_nat [of "nat i"] s by simp
  moreover have "strip (str_nat (nat i)) = c # cs" using strip_str_nat [of "nat i"] s by simp
  ultimately show ?thesis using False by (simp add: parse_int_def py_str_def)
qed

lemma py_int_py_str: "py_int (Some (py_str i)) = Inr i"
  by (simp add: py_int_def parse_int_py_str)


section \<open>Reconciling the port lists\<close>

text \<open>
  The port lists that \<open>migrate\<close> passes on come from \<open>get_switch_ports\<close>: they are
  non-empty lists of distinct objects of the store.
\<close>

lemma new_ports_refs:
  "new_ports response h = (Inr ports, h') \<Longrightarrow>
   ports = [length h ..< length h + length response] \<and>
   length h' = length h + length response"
proof (induction response arbitrary: h ports h')
  case Nil
  then show ?case by simp
next
  case (Cons v rest)
  from Cons.prems obtain port where v: "v = PDict port" by (cases v) auto
  from Cons.prems v obtain p where p: "SwitchPort_init (known_items SwitchPort_fields port) = Inr p"
    by (auto split: sum.splits)
  from Cons.prems v p obtain tail where
    tail: "new_ports rest (h @ [p]) = (Inr tail, h')" and ports: "ports = length h # tail"
    by (auto split: sum.splits prod.splits)
  from Cons.IH [OF tail] have "tail = [Suc (length h) ..< Suc (length h) + length rest]"
    and "length h' = Suc (length h) + length rest" by (simp_all del: upt_Suc)
  moreover have "[length h ..< length h + length (v # rest)] =
                   length h # [Suc (length h) ..< Suc (length h) + length rest]"
    by (simp add: upt_conv_Cons del: upt_Suc)
  ultimately show ?case using ports by (simp del: upt_Suc)
qed

lemma get_switch_ports_distinct:
  assumes "get_switch_ports E serial w = (Inr ports, w')"
  shows "ports \<noteq> [] \<and> distinct ports \<and> (\<forall>r \<in> set ports. r < length (heap w'))"
proof -
  from assms obtain response h where
    "new_ports response (heap w) = (Inr ports, h)" "heap w' = h" "ports \<noteq> []"
    by (auto simp: get_switch_ports_def call_def Let_def
             split: sum.splits pyval.splits prod.splits if_splits)
  with new_ports_refs [of response "heap w" ports h] show ?thesis by auto
qed

lemma as_val [simp]:
  "as_str (Some (str_val a)) = a"
  "as_bool (Some (bool_val b)) = b"
  "as_int (Some (int_val c)) = c"
  "as_float (Some (float_val d)) = d"
  "as_dict (Some (dict_val e)) = e"
  by (simp_all add: as_str_def str_val_def as_bool_def bool_val_def as_int_def int_val_def
        as_float_def float_val_def as_dict_def dict_val_def split: option.splits)

lemma the_strs_map [simp]: "the_strs (map PStr ss) = Some ss"
  by (induction ss) simp_all

lemma as_strs_val [simp]: "as_strs (Some (strs_val f)) = f"
  by (simp add: as_strs_def strs_val_def split: option.splits)

text \<open>Rebuilding a port from its own \<open>asdict\<close> gives an equal port.\<close>

lemma SwitchPort_copy: "SwitchPort_init (SwitchPort_asdict p) = Inr p"
  by (simp add: SwitchPort_init_def SwitchPort_asdict_def SwitchPort_fields_def)

lemma extend_rj45_result:
  "ports \<noteq> [] \<Longrightarrow> hd ports < length h \<Longrightarrow>
   extend_rj45 [length ports ..< length ports + m] ports h =
     (Inr (ports @ [length h ..< length h + m]),
      h @ map (\<lambda>j. (h ! hd ports)\<lparr>portId := Some (py_str (int (length ports + j) + 1))\<rparr>) [0 ..< m])"
proof (induction m arbitrary: ports h)
  case 0
  then show ?case by simp
next
  case (Suc m)
  define n where "n = length ports"
  define fresh where "fresh = (h ! hd ports)\<lparr>portId := Some (py_str (int n + 1))\<rparr>"
  obtain first rest where ports: "ports = first # rest" using Suc.prems(1) by (cases ports) auto
  have first: "first < length h" using Suc.prems(2) ports by simp
  have range: "[n ..< n + Suc m] = n # [Suc n ..< Suc n + m]"
    by (simp add: upt_conv_Cons)
  have step: "extend_rj45 [n ..< n + Suc m] ports h =
                extend_rj45 [Suc n ..< Suc n + m] (ports @ [length h]) (h @ [fresh])"
    unfolding range using first
    by (simp add: ports SwitchPort_copy Let_def n_def fresh_def nth_append)
  have "extend_rj45 [length (ports @ [length h]) ..< length (ports @ [length h]) + m]
          (ports @ [length h]) (h @ [fresh]) =
        (Inr ((ports @ [length h]) @ [length (h @ [fresh]) ..< length (h @ [fresh]) + m]),
         (h @ [fresh]) @
           map (\<lambda>j. ((h @ [fresh]) ! hd (ports @ [length h]))
                  \<lparr>portId := Some (py_str (int (length (ports @ [length h]) + j) + 1))\<rparr>) [0 ..< m])"
    by (rule Suc.IH) (use first ports in simp_all)
  moreover have "(h @ [fresh]) ! hd (ports @ [length h]) = h ! hd ports"
    using first ports by (simp add: nth_append)
  moreover have "[length h ..< length h + Suc m] = length h # [Suc (length h) ..< Suc (length h) + m]"
    by (simp add: upt_conv_Cons)
  moreover have "map (\<lambda>j. (h ! hd ports)\<lparr>portId := Some (py_str (int (n + j) + 1))\<rparr>) [0 ..< Suc m] =
      fresh # map (\<lambda>j. (h ! hd ports)\<lparr>portId := Some (py_str (int (Suc n + j) + 1))\<rparr>) [0 ..< m]"
    by (simp add: fresh_def upt_conv_Cons map_Suc_upt [symmetric] del: upt_Suc map_Suc_upt)
  ultimately show ?case
    using step by (simp add: n_def del: upt_Suc)
qed

lemma renumber_sfp_result:
  "distinct rs \<Longrightarrow> \<forall>r \<in> set rs. r < length h \<Longrightarrow>
   \<forall>r \<in> set rs. \<exists>k. py_int (portId (h ! r)) = Inr k \<Longrightarrow>
   \<exists>h'. renumber_sfp delta rs h = (Inr (), h') \<and> length h' = length h \<and>
        (\<forall>r. r \<notin> set rs \<longrightarrow> h' ! r = h ! r) \<and>
        (\<forall>r \<in> set rs. \<forall>k. py_int (portId (h ! r)) = Inr k \<longrightarrow>
             h' ! r = (h ! r)\<lparr>portId := Some (py_str (k + delta))\<rparr>)"
proof (induction rs arbitrary: h)
  case Nil
  then show ?case by simp
next
  case (Cons r rs)
  from Cons.prems obtain k where k: "py_int (portId (h ! r)) = Inr k" by auto
  define h1 where "h1 = h[r := (h ! r)\<lparr>portId := Some (py_str (k + delta))\<rparr>]"
  have r: "r < length h" "r \<notin> set rs" "distinct rs" using Cons.prems by auto
  have same: "h1 ! x = h ! x" if "x \<noteq> r" for x using that by (simp add: h1_def)
  have "\<forall>x \<in> set rs. x < length h1" using Cons.prems(2) by (simp add: h1_def)
  moreover have "\<forall>x \<in> set rs. \<exists>k. py_int (portId (h1 ! x)) = Inr k"
    using Cons.prems(3) r(2) same by (metis list.set_intros(2))
  ultimately obtain h' where h': "renumber_sfp delta rs h1 = (Inr (), h')" "length h' = length h1"
    "\<forall>x. x \<notin> set rs \<longrightarrow> h' ! x = h1 ! x"
    "\<forall>x \<in> set rs. \<forall>k. py_int (portId (h1 ! x)) = Inr k \<longrightarrow>
         h' ! x = (h1 ! x)\<lparr>portId := Some (py_str (k + delta))\<rparr>"
    using Cons.IH [OF r(3), of h1] by blast
  have "renumber_sfp delta (r # rs) h = (Inr (), h')"
    using k h'(1) by (simp add: h1_def)
  moreover have "length h' = length h" using h'(2) by (simp add: h1_def)
  moreover have "\<forall>x. x \<notin> set (r # rs) \<longrightarrow> h' ! x = h ! x"
    using h'(3) same by simp
  moreover have "\<forall>x \<in> set (r # rs). \<forall>j. py_int (portId (h ! x)) = Inr j \<longrightarrow>
         h' ! x = (h ! x)\<lparr>portId := Some (py_str (j + delta))\<rparr>"
  proof (intro ballI allI impI)
    fix x j assume x: "x \<in> set (r # rs)" and j: "py_int (portId (h ! x)) = Inr j"
    show "h' ! x = (h ! x)\<lparr>portId := Some (py_str (j + delta))\<rparr>"
    proof (cases "x = r")
      case True
      with j k have "j = k" by simp
      moreover have "h' ! r = h1 ! r" using h'(3) r(2) by simp
      moreover have "h1 ! r = (h ! r)\<lparr>portId := Some (py_str (k + delta))\<rparr>"
        using r(1) by (simp add: h1_def)
      ultimately show ?thesis using True by simp
    next
      case False
      with x have "x \<in> set rs" by simp
      moreover have "h1 ! x = h ! x" using False by (rule same)
      ultimately show ?thesis using h'(4) j by simp
    qed
  qed
  ultimately show ?case by blast
qed


lemma numbered_ports_heap:
  "length (heap (numbered_ports n)) = n"
  "r < n \<Longrightarrow> heap (numbered_ports n) ! r = numbered_port (Suc r)"
  "portId (numbered_port i) = Some (py_str (int i))"
  by (simp_all add: numbered_ports_def numbered_port_def del: upt_Suc)

lemma numbered_ports_numeric:
  "r < n \<Longrightarrow> py_int (portId (heap (numbered_ports n) ! r)) = Inr (int (Suc r))"
  by (simp only: numbered_ports_heap py_int_py_str)


lemma rj45_count_24: "rj45_count n = Inr 24 \<longleftrightarrow> 24 \<le> n \<and> n < 48"
  by (simp add: rj45_count_cases)

lemma rj45_count_48: "rj45_count n = Inr 48 \<longleftrightarrow> 48 \<le> n"
  by (simp add: rj45_count_cases)

text \<open>
  Claim C3. Let the source list have class 24 and the target class 48, the source ports
  be distinct objects of the store \<open>h\<close>, and every uplink port (those after the first
  24) have a numeric identifier. Then the adjusted list is the 24 base ports, 24 new
  objects and the uplink ports, in this order, so it has 48 base ports. In the new store
  \<open>h'\<close> every object that is not an uplink port, the 24 base ports among them, is
  unchanged; the new object at position \<open>25 + j\<close> is a separate object (its reference lies
  beyond the old store) equal to the first base port except that its identifier is
  \<open>25 + j\<close>; and each uplink port is changed only in its identifier, whose number has
  grown by 24.
\<close>

theorem adjusted_source_ports_24_to_48:
  assumes "distinct source_ports"
    and "\<forall>r \<in> set source_ports. r < length h"
    and "rj45_count (int (length source_ports)) = Inr 24"
    and "rj45_count target_port_count = Inr 48"
    and "\<forall>r \<in> set (drop 24 source_ports). \<exists>k. py_int (portId (h ! r)) = Inr k"
  shows "\<exists>h'. adjusted_source_ports source_ports target_serial target_port_count h =
            (Inr (take 24 source_ports @ [length h ..< length h + 24] @ drop 24 source_ports), h') \<and>
          length (take 24 source_ports @ [length h ..< length h + 24]) = 48 \<and>
          length h' = length h + 24 \<and>
          (\<forall>r < length h. r \<notin> set (drop 24 source_ports) \<longrightarrow> h' ! r = h ! r) \<and>
          (\<forall>i < 24. h' ! (source_ports ! i) = h ! (source_ports ! i)) \<and>
          (\<forall>j < 24. h' ! (length h + j) =
                       (h ! (source_ports ! 0))\<lparr>portId := Some (py_str (25 + int j))\<rparr>) \<and>
          (\<forall>r \<in> set (drop 24 source_ports). \<forall>k. py_int (portId (h ! r)) = Inr k \<longrightarrow>
               h' ! r = (h ! r)\<lparr>portId := Some (py_str (k + 24))\<rparr> \<and>
               py_int (portId (h' ! r)) = Inr (k + 24))"
proof -
  define base where "base = take 24 source_ports"
  define sfp where "sfp = drop 24 source_ports"
  define h1 where
    "h1 = h @ map (\<lambda>j. (h ! hd base)\<lparr>portId := Some (py_str (int (length base + j) + 1))\<rparr>) [0 ..< 24]"
  have len: "24 \<le> length source_ports" "length source_ports < 48"
    using assms(3) by (simp_all add: rj45_count_24)
  have base_len: "length base = 24" using len by (simp add: base_def)
  have base_ne: "base \<noteq> []" using base_len by auto
  have ne: "source_ports \<noteq> []" using len by auto
  have hd_base: "hd base = source_ports ! 0" using ne by (simp add: base_def hd_conv_nth)
  have "source_ports ! 0 \<in> set source_ports" using ne by simp
  then have valid0: "hd base < length h" using assms(2) hd_base by simp
  have split: "source_ports = base @ sfp" by (simp add: base_def sfp_def)
  have disjoint: "set base \<inter> set sfp = {}" and dsfp: "distinct sfp"
    using assms(1) split by auto
  have "extend_rj45 [length base ..< length base + 24] base h =
          (Inr (base @ [length h ..< length h + 24]), h1)"
    unfolding h1_def by (rule extend_rj45_result [OF base_ne valid0])
  then have extend: "extend_rj45 [24 ..< 48] base h = (Inr (base @ [length h ..< length h + 24]), h1)"
    by (simp add: base_len)
  have old: "h1 ! r = h ! r" if "r < length h" for r using that by (simp add: h1_def nth_append)
  have new: "h1 ! (length h + j) = (h ! (source_ports ! 0))\<lparr>portId := Some (py_str (25 + int j))\<rparr>"
    if "j < 24" for j
    using that by (simp add: h1_def nth_append base_len hd_base del: upt_Suc)
  have sfp_valid: "\<forall>r \<in> set sfp. r < length h" using assms(2) split by auto
  then have sfp_valid1: "\<forall>r \<in> set sfp. r < length h1" by (auto simp: h1_def)
  have sfp_num1: "\<forall>r \<in> set sfp. \<exists>k. py_int (portId (h1 ! r)) = Inr k"
    using assms(5) sfp_valid old by (simp add: sfp_def)
  obtain h2 where h2: "renumber_sfp 24 sfp h1 = (Inr (), h2)" "length h2 = length h1"
    "\<forall>r. r \<notin> set sfp \<longrightarrow> h2 ! r = h1 ! r"
    "\<forall>r \<in> set sfp. \<forall>k. py_int (portId (h1 ! r)) = Inr k \<longrightarrow>
         h2 ! r = (h1 ! r)\<lparr>portId := Some (py_str (k + 24))\<rparr>"
    using renumber_sfp_result [OF dsfp sfp_valid1 sfp_num1, of 24] by blast
  have run: "adjusted_source_ports source_ports target_serial target_port_count h =
               (Inr (base @ [length h ..< length h + 24] @ sfp), h2)"
    using assms(3,4) ne extend h2(1)
    by (simp add: adjusted_source_ports_def Let_def slice_to_def slice_from_def
          base_def [symmetric] sfp_def [symmetric])
  have c2: "length (base @ [length h ..< length h + 24]) = 48" by (simp add: base_len)
  have c3: "length h2 = length h + 24" using h2(2) by (simp add: h1_def)
  have c4: "\<forall>r < length h. r \<notin> set sfp \<longrightarrow> h2 ! r = h ! r" using h2(3) old by simp
  have c5: "\<forall>i < 24. h2 ! (source_ports ! i) = h ! (source_ports ! i)"
  proof (intro allI impI)
    fix i :: nat assume i: "i < 24"
    then have "source_ports ! i \<in> set base"
      using base_len by (metis base_def in_set_conv_nth nth_take)
    moreover have "source_ports ! i < length h" using assms(2) len i by simp
    ultimately show "h2 ! (source_ports ! i) = h ! (source_ports ! i)"
      using c4 disjoint by blast
  qed
  have c6: "\<forall>j < 24. h2 ! (length h + j) =
              (h ! (source_ports ! 0))\<lparr>portId := Some (py_str (25 + int j))\<rparr>"
  proof (intro allI impI)
    fix j :: nat assume j: "j < 24"
    have "length h + j \<notin> set sfp" using sfp_valid by auto
    then show "h2 ! (length h + j) = (h ! (source_ports ! 0))\<lparr>portId := Some (py_str (25 + int j))\<rparr>"
      using h2(3) new [OF j] by simp
  qed
  have c7: "\<forall>r \<in> set sfp. \<forall>k. py_int (portId (h ! r)) = Inr k \<longrightarrow>
               h2 ! r = (h ! r)\<lparr>portId := Some (py_str (k + 24))\<rparr> \<and>
               py_int (portId (h2 ! r)) = Inr (k + 24)"
  proof (intro ballI allI impI)
    fix r k assume r: "r \<in> set sfp" and k: "py_int (portId (h ! r)) = Inr k"
    have "h1 ! r = h ! r" using r sfp_valid old by simp
    with h2(4) r k have "h2 ! r = (h ! r)\<lparr>portId := Some (py_str (k + 24))\<rparr>" by simp
    then show "h2 ! r = (h ! r)\<lparr>portId := Some (py_str (k + 24))\<rparr> \<and>
               py_int (portId (h2 ! r)) = Inr (k + 24)"
      by (simp add: py_int_py_str)
  qed
  show ?thesis
    using run c2 c3 c4 c5 c6 c7 unfolding base_def sfp_def by blast
qed


theorem adjusted_source_ports_24_to_48_witness:
  "distinct [0 ..< 26] \<and> rj45_count (int (length [0 ..< 26])) = Inr 24 \<and> rj45_count 52 = Inr 48 \<and>
   (\<exists>h'. adjusted_source_ports [0 ..< 26] ''Q2-B'' 52 (heap (numbered_ports 26)) =
            (Inr ([0 ..< 24] @ [26 ..< 50] @ [24 ..< 26]), h') \<and>
         length h' = 50 \<and>
         h' ! 0 = numbered_port 1 \<and>
         h' ! 26 = (numbered_port 1)\<lparr>portId := Some ''25''\<rparr> \<and>
         h' ! 24 = (numbered_port 25)\<lparr>portId := Some ''49''\<rparr>)"
proof -
  define h where "h = heap (numbered_ports 26)"
  have a: "distinct [0 ..< 26]" by simp
  have b: "\<forall>r \<in> set [0 ..< 26]. r < length h" by (simp add: h_def numbered_ports_heap)
  have c: "rj45_count (int (length [0 ..< 26])) = Inr 24" by (simp add: rj45_count_cases)
  have d: "rj45_count 52 = Inr 48" by (simp add: rj45_count_cases)
  have e: "\<forall>r \<in> set (drop 24 [0 ..< 26]). \<exists>k. py_int (portId (h ! r)) = Inr k"
    by (simp add: h_def numbered_ports_numeric del: upt_Suc)
  have s25: "py_str 25 = ''25''" and s49: "py_str 49 = ''49''" by code_simp+
  have k24: "py_int (portId (h ! 24)) = Inr 25"
    using numbered_ports_numeric [of 24 26] by (simp add: h_def)
  have first: "h ! 0 = numbered_port 1" and last: "h ! 24 = numbered_port 25"
    using numbered_ports_heap(2) [of 0 26] numbered_ports_heap(2) [of 24 26] by (simp_all add: h_def)
  from adjusted_source_ports_24_to_48 [OF a b c d e, of "''Q2-B''"]
  obtain h' where h':
    "adjusted_source_ports [0 ..< 26] ''Q2-B'' 52 h =
       (Inr (take 24 [0 ..< 26] @ [length h ..< length h + 24] @ drop 24 [0 ..< 26]), h')"
    "length h' = length h + 24"
    "\<forall>i < 24. h' ! ([0 ..< 26] ! i) = h ! ([0 ..< 26] ! i)"
    "\<forall>j < 24. h' ! (length h + j) = (h ! ([0 ..< 26] ! 0))\<lparr>portId := Some (py_str (25 + int j))\<rparr>"
    "\<forall>r \<in> set (drop 24 [0 ..< 26]). \<forall>k. py_int (portId (h ! r)) = Inr k \<longrightarrow>
        h' ! r = (h ! r)\<lparr>portId := Some (py_str (k + 24))\<rparr> \<and>
        py_int (portId (h' ! r)) = Inr (k + 24)"
    by (elim exE conjE)
  have len: "length h = 26" by (simp add: h_def numbered_ports_heap)
  have r1: "adjusted_source_ports [0 ..< 26] ''Q2-B'' 52 h =
              (Inr ([0 ..< 24] @ [26 ..< 50] @ [24 ..< 26]), h')"
    using h'(1) by (simp add: len del: upt_Suc)
  have r2: "length h' = 50" using h'(2) len by simp
  have r3: "h' ! 0 = numbered_port 1"
    using h'(3) [rule_format, of 0] first by (simp del: upt_Suc)
  have r4: "h' ! 26 = (numbered_port 1)\<lparr>portId := Some ''25''\<rparr>"
    using h'(4) [rule_format, of 0] first len s25 by (simp del: upt_Suc)
  have "24 \<in> set (drop 24 [0 ..< 26])" by (simp del: upt_Suc)
  with h'(5) k24 have "h' ! 24 = (h ! 24)\<lparr>portId := Some (py_str (25 + 24))\<rparr>" by blast
  then have r5: "h' ! 24 = (numbered_port 25)\<lparr>portId := Some ''49''\<rparr>"
    using last s49 by simp
  show ?thesis
    using a c d r1 r2 r3 r4 r5 unfolding h_def by blast
qed

text \<open>
  Claim C4. Let the source list have class 48 and the target class 24, the source ports
  be distinct objects of the store \<open>h\<close>, and every uplink port (those after the first
  48) have a numeric identifier. Then the adjusted list is the first 24 base ports
  followed by the uplink ports; no object is created, every object that is not an
  uplink port, the 24 kept base ports among them, is unchanged, each uplink port is
  changed only in its identifier, whose number has dropped by 24, and none of the
  source ports 25 to 48 is in the adjusted list.
\<close>

theorem adjusted_source_ports_48_to_24:
  assumes "distinct source_ports"
    and "\<forall>r \<in> set source_ports. r < length h"
    and "rj45_count (int (length source_ports)) = Inr 48"
    and "rj45_count target_port_count = Inr 24"
    and "\<forall>r \<in> set (drop 48 source_ports). \<exists>k. py_int (portId (h ! r)) = Inr k"
  shows "\<exists>h'. adjusted_source_ports source_ports target_serial target_port_count h =
            (Inr (take 24 source_ports @ drop 48 source_ports), h') \<and>
          length (take 24 source_ports) = 24 \<and>
          length h' = length h \<and>
          (\<forall>r. r \<notin> set (drop 48 source_ports) \<longrightarrow> h' ! r = h ! r) \<and>
          (\<forall>i < 24. h' ! (source_ports ! i) = h ! (source_ports ! i)) \<and>
          (\<forall>r \<in> set (drop 48 source_ports). \<forall>k. py_int (portId (h ! r)) = Inr k \<longrightarrow>
               h' ! r = (h ! r)\<lparr>portId := Some (py_str (k - 24))\<rparr> \<and>
               py_int (portId (h' ! r)) = Inr (k - 24)) \<and>
          (\<forall>i. 24 \<le> i \<and> i < 48 \<longrightarrow>
               source_ports ! i \<notin> set (take 24 source_ports @ drop 48 source_ports))"
proof -
  define sfp where "sfp = drop 48 source_ports"
  have len: "48 \<le> length source_ports" using assms(3) by (simp add: rj45_count_48)
  have ne: "source_ports \<noteq> []" using len by auto
  have split: "source_ports = take 48 source_ports @ sfp" by (simp add: sfp_def)
  have dsfp: "distinct sfp" using assms(1) by (simp add: sfp_def)
  have sfp_valid: "\<forall>r \<in> set sfp. r < length h"
    using assms(2) by (metis sfp_def in_set_dropD)
  have sfp_num: "\<forall>r \<in> set sfp. \<exists>k. py_int (portId (h ! r)) = Inr k"
    using assms(5) by (simp add: sfp_def)
  obtain h2 where h2: "renumber_sfp (- 24) sfp h = (Inr (), h2)" "length h2 = length h"
    "\<forall>r. r \<notin> set sfp \<longrightarrow> h2 ! r = h ! r"
    "\<forall>r \<in> set sfp. \<forall>k. py_int (portId (h ! r)) = Inr k \<longrightarrow>
         h2 ! r = (h ! r)\<lparr>portId := Some (py_str (k + - 24))\<rparr>"
    using renumber_sfp_result [OF dsfp sfp_valid sfp_num, of "- 24"] by blast
  have run: "adjusted_source_ports source_ports target_serial target_port_count h =
               (Inr (take 24 source_ports @ sfp), h2)"
    using assms(3,4) ne h2(1)
    by (simp add: adjusted_source_ports_def Let_def slice_to_def slice_from_def
          sfp_def [symmetric])
  have c2: "length (take 24 source_ports) = 24" using len by simp
  have early: "source_ports ! i \<notin> set sfp" if "i < 48" for i
  proof
    assume "source_ports ! i \<in> set sfp"
    then obtain j where j: "j < length sfp" "sfp ! j = source_ports ! i"
      by (auto simp: in_set_conv_nth)
    then have "source_ports ! (48 + j) = source_ports ! i" "48 + j < length source_ports"
      using len by (simp_all add: sfp_def)
    with assms(1) that len have "48 + j = i" by (simp add: nth_eq_iff_index_eq)
    with that show False by simp
  qed
  have c5: "\<forall>i < 24. h2 ! (source_ports ! i) = h ! (source_ports ! i)"
    using h2(3) early by simp
  have c6: "\<forall>r \<in> set sfp. \<forall>k. py_int (portId (h ! r)) = Inr k \<longrightarrow>
               h2 ! r = (h ! r)\<lparr>portId := Some (py_str (k - 24))\<rparr> \<and>
               py_int (portId (h2 ! r)) = Inr (k - 24)"
  proof (intro ballI allI impI)
    fix r k assume r: "r \<in> set sfp" and k: "py_int (portId (h ! r)) = Inr k"
    with h2(4) have "h2 ! r = (h ! r)\<lparr>portId := Some (py_str (k - 24))\<rparr>" by simp
    then show "h2 ! r = (h ! r)\<lparr>portId := Some (py_str (k - 24))\<rparr> \<and>
               py_int (portId (h2 ! r)) = Inr (k - 24)"
      by (simp add: py_int_py_str)
  qed
  have c7: "\<forall>i. 24 \<le> i \<and> i < 48 \<longrightarrow> source_ports ! i \<notin> set (take 24 source_ports @ sfp)"
  proof (intro allI impI)
    fix i :: nat assume i: "24 \<le> i \<and> i < 48"
    have "source_ports ! i \<notin> set (take 24 source_ports)"
    proof
      assume "source_ports ! i \<in> set (take 24 source_ports)"
      then obtain j where j: "j < 24" "source_ports ! j = source_ports ! i"
        using len by (auto simp: in_set_conv_nth)
      with assms(1) i len have "j = i" by (simp add: nth_eq_iff_index_eq)
      with i j show False by simp
    qed
    with early i show "source_ports ! i \<notin> set (take 24 source_ports @ sfp)" by simp
  qed
  show ?thesis
    using run c2 h2(2,3) c5 c6 c7 unfolding sfp_def by blast
qed

theorem adjusted_source_ports_48_to_24_witness:
  "distinct [0 ..< 52] \<and> rj45_count (int (length [0 ..< 52])) = Inr 48 \<and> rj45_count 28 = Inr 24 \<and>
   (\<exists>h'. adjusted_source_ports [0 ..< 52] ''Q2-B'' 28 (heap (numbered_ports 52)) =
            (Inr ([0 ..< 24] @ [48 ..< 52]), h') \<and>
         length h' = 52 \<and>
         h' ! 0 = numbered_port 1 \<and>
         h' ! 48 = (numbered_port 49)\<lparr>portId := Some ''25''\<rparr>)"
proof -
  define h where "h = heap (numbered_ports 52)"
  have a: "distinct [0 ..< 52]" by simp
  have b: "\<forall>r \<in> set [0 ..< 52]. r < length h" by (simp add: h_def numbered_ports_heap)
  have c: "rj45_count (int (length [0 ..< 52])) = Inr 48" by (simp add: rj45_count_cases)
  have d: "rj45_count 28 = Inr 24" by (simp add: rj45_count_cases)
  have e: "\<forall>r \<in> set (drop 48 [0 ..< 52]). \<exists>k. py_int (portId (h ! r)) = Inr k"
    by (simp add: h_def numbered_ports_numeric del: upt_Suc)
  have s25: "py_str 25 = ''25''" by code_simp
  have k48: "py_int (portId (h ! 48)) = Inr 49"
    using numbered_ports_numeric [of 48 52] by (simp add: h_def)
  have first: "h ! 0 = numbered_port 1" and last: "h ! 48 = numbered_port 49"
    using numbered_ports_heap(2) [of 0 52] numbered_ports_heap(2) [of 48 52] by (simp_all add: h_def)
  from adjusted_source_ports_48_to_24 [OF a b c d e, of "''Q2-B''"]
  obtain h' where h':
    "adjusted_source_ports [0 ..< 52] ''Q2-B'' 28 h =
       (Inr (take 24 [0 ..< 52] @ drop 48 [0 ..< 52]), h')"
    "length h' = length h"
    "\<forall>i < 24. h' ! ([0 ..< 52] ! i) = h ! ([0 ..< 52] ! i)"
    "\<forall>r \<in> set (drop 48 [0 ..< 52]). \<forall>k. py_int (portId (h ! r)) = Inr k \<longrightarrow>
        h' ! r = (h ! r)\<lparr>portId := Some (py_str (k - 24))\<rparr> \<and>
        py_int (portId (h' ! r)) = Inr (k - 24)"
    by (elim exE conjE)
  have len: "length h = 52" by (simp add: h_def numbered_ports_heap)
  have r1: "adjusted_source_ports [0 ..< 52] ''Q2-B'' 28 h = (Inr ([0 ..< 24] @ [48 ..< 52]), h')"
    using h'(1) by (simp del: upt_Suc)
  have r2: "length h' = 52" using h'(2) len by simp
  have r3: "h' ! 0 = numbered_port 1"
    using h'(3) [rule_format, of 0] first by (simp del: upt_Suc)
  have "48 \<in> set (drop 48 [0 ..< 52])" by (simp del: upt_Suc)
  with h'(4) k48 have "h' ! 48 = (h ! 48)\<lparr>portId := Some (py_str (49 - 24))\<rparr>" by blast
  then have r4: "h' ! 48 = (numbered_port 49)\<lparr>portId := Some ''25''\<rparr>"
    using last s25 by simp
  show ?thesis
    using a c d r1 r2 r3 r4 unfolding h_def by blast
qed

section \<open>The clone step\<close>

lemma update_each_port_events:
  "\<exists>more. events (snd (update_each_port E target_serial ports w)) = events w @ more"
proof (induction ports arbitrary: w)
  case Nil
  then show ?case by simp
next
  case (Cons r rest)
  define w' where
    "w' = w\<lparr>events := events w @
             [Call (updateDeviceSwitchPort target_serial (portId (heap w ! r))
                     (update_port_kwargs (heap w ! r)))]\<rparr>"
  obtain more where "events (snd (update_each_port E target_serial rest w')) = events w' @ more"
    using Cons.IH by blast
  then show ?case
    by (auto simp: call_def Let_def w'_def split: sum.splits)
qed

lemma update_switch_ports_events:
  "\<exists>more. events (snd (update_switch_ports E source_ports target_serial n w)) = events w @ more"
proof (cases "adjusted_source_ports source_ports target_serial n (heap w)")
  case (Pair res h)
  show ?thesis
  proof (cases res)
    case (Inl e)
    with Pair show ?thesis by (simp add: update_switch_ports_def)
  next
    case (Inr adjusted)
    with Pair update_each_port_events [of E target_serial adjusted "w\<lparr>heap := h\<rparr>"]
    show ?thesis by (simp add: update_switch_ports_def)
  qed
qed

lemma update_switch_config_events:
  "\<exists>more. events (snd (snd (update_switch_config E source_device target_serial w))) =
            events w @ more"
  by (simp add: update_switch_config_def call_def Let_def)

lemma migrate_write_events:
  "\<exists>more. events (snd (migrate_write E None source_serial target_serial source_device
                          target_device source_ports target_ports w)) = events w @ more"
proof -
  let ?n = "int (length target_ports)"
  obtain r2 w2 where p: "update_switch_ports E source_ports target_serial ?n w = (r2, w2)"
    by (cases "update_switch_ports E source_ports target_serial ?n w")
  obtain m2 where m2: "events w2 = events w @ m2"
    using update_switch_ports_events [of E source_ports target_serial ?n w] p by auto
  show ?thesis
  proof (cases r2)
    case (Inl e)
    with p m2 show ?thesis by (simp add: migrate_write_def)
  next
    case (Inr u)
    obtain r3 d3 w3 where c: "update_switch_config E source_device target_serial w2 = (r3, d3, w3)"
      by (cases "update_switch_config E source_device target_serial w2")
    obtain m3 where "events w3 = events w2 @ m3"
      using update_switch_config_events [of E source_device target_serial w2] c by auto
    with Inr p c m2 show ?thesis by (simp add: migrate_write_def)
  qed
qed

lemma migrate_write_clone:
  assumes "model source_device = model target_device"
  shows "migrate_write E (Some org) source_serial target_serial source_device target_device
           source_ports target_ports w =
         (case respond E (events w)
                 (cloneOrganizationSwitchDevices org source_serial [target_serial]) of
            Inl e \<Rightarrow>
              (Inl (ClickException
                     (''Error cloning configuration from '' @ source_serial @ '' to '' @
                      target_serial @ ''.'')),
               w\<lparr>events := events w @
                  [Call (cloneOrganizationSwitchDevices org source_serial [target_serial])]\<rparr>)
          | Inr response \<Rightarrow>
              migrate_write E None source_serial target_serial source_device target_device
                source_ports target_ports
                (w\<lparr>events := events w @
                  [Call (cloneOrganizationSwitchDevices org source_serial [target_serial])]\<rparr>))"
  using assms
  by (simp add: migrate_write_def clone_config_def call_def Let_def split: sum.splits)

lemma migrate_after_read:
  assumes "(if api_key = ''MERAKI_DASHBOARD_API_KEY'' then get_api_key_from_env E
            else Inr api_key) = Inr key"
    and "migrate_read E key quiet yes source_serial target_serial w =
           (Inr (source_device, target_device, source_ports, target_ports), w1)"
    and "migrate_write E organization_id source_serial target_serial source_device
           target_device source_ports target_ports w1 = (r, w2)"
  shows "migrate E api_key organization_id quiet yes source_serial target_serial w =
           (case r of Inl (APIError m) \<Rightarrow> Inl Abort | _ \<Rightarrow> r, w2)"
  using assms by (simp add: migrate_def split: sum.splits exn.splits)

text \<open>
  Claim C1, amended. Take a run of \<open>migrate\<close> that has read both devices and both port
  lists, with equal models and an organization identifier. The next recorded event is
  the clone call. If the API raises on it, \<open>migrate\<close> ends at once with the
  \<open>ClickException\<close> of line 224 and nothing more is recorded: no port is updated and
  the device is not updated.
\<close>

theorem migrate_clone_failure_aborts:
  assumes "(if api_key = ''MERAKI_DASHBOARD_API_KEY'' then get_api_key_from_env E
            else Inr api_key) = Inr key"
    and "migrate_read E key quiet yes source_serial target_serial w =
           (Inr (source_device, target_device, source_ports, target_ports), w1)"
    and "model source_device = model target_device"
  shows "\<exists>r w'. migrate E api_key (Some org) quiet yes source_serial target_serial w = (r, w') \<and>
           take (Suc (length (events w1))) (events w') =
             events w1 @ [Call (cloneOrganizationSwitchDevices org source_serial [target_serial])] \<and>
           (\<forall>e. respond E (events w1)
                    (cloneOrganizationSwitchDevices org source_serial [target_serial]) = Inl e \<longrightarrow>
                r = Inl (ClickException
                          (''Error cloning configuration from '' @ source_serial @ '' to '' @
                           target_serial @ ''.'')) \<and>
                w' = w1\<lparr>events := events w1 @
                        [Call (cloneOrganizationSwitchDevices org source_serial [target_serial])]\<rparr>)"
proof -
  let ?clone = "cloneOrganizationSwitchDevices org source_serial [target_serial]"
  let ?w1' = "w1\<lparr>events := events w1 @ [Call ?clone]\<rparr>"
  let ?failed = "Inl (ClickException
                       (''Error cloning configuration from '' @ source_serial @ '' to '' @
                        target_serial @ ''.'')) :: exn + unit"
  obtain r w2 where wr: "migrate_write E (Some org) source_serial target_serial source_device
           target_device source_ports target_ports w1 = (r, w2)"
    by (cases "migrate_write E (Some org) source_serial target_serial source_device
           target_device source_ports target_ports w1")
  note run = migrate_after_read [OF assms(1,2) wr]
  show ?thesis
  proof (cases "respond E (events w1) ?clone")
    case (Inl e)
    with wr have "r = ?failed" "w2 = ?w1'"
      by (simp_all add: migrate_write_clone [OF assms(3)])
    with run Inl show ?thesis by simp
  next
    case (Inr response)
    with wr have "migrate_write E None source_serial target_serial source_device target_device
                    source_ports target_ports ?w1' = (r, w2)"
      by (simp add: migrate_write_clone [OF assms(3)])
    then obtain more where "events w2 = events ?w1' @ more"
      using migrate_write_events [of E source_serial target_serial source_device target_device
              source_ports target_ports ?w1'] by auto
    with run Inr show ?thesis by simp
  qed
qed

theorem migrate_clone_failure_aborts_witness:
  "(if ''key'' = ''MERAKI_DASHBOARD_API_KEY'' then get_api_key_from_env (example_api example_device is_clone)
    else Inr ''key'') = Inr ''key'' \<and>
   (\<exists>source_device target_device source_ports target_ports w1.
      migrate_read (example_api example_device is_clone) ''key'' False True ''Q2-A'' ''Q2-B'' no_events =
        (Inr (source_device, target_device, source_ports, target_ports), w1) \<and>
      model source_device = model target_device \<and>
      migrate (example_api example_device is_clone) ''key'' (Some ''org-1'') False True ''Q2-A'' ''Q2-B''
          no_events =
        (Inl (ClickException ''Error cloning configuration from Q2-A to Q2-B.''),
         w1\<lparr>events := events w1 @
            [Call (cloneOrganizationSwitchDevices ''org-1'' ''Q2-A'' [''Q2-B''])]\<rparr>))"
proof -
  let ?E = "example_api example_device is_clone"
  have key: "(if ''key'' = ''MERAKI_DASHBOARD_API_KEY'' then get_api_key_from_env ?E
              else Inr ''key'') = Inr ''key''"
    by simp
  have "case migrate_read ?E ''key'' False True ''Q2-A'' ''Q2-B'' no_events of
          (Inl e, w1) \<Rightarrow> False
        | (Inr (source_device, target_device, source_ports, target_ports), w1) \<Rightarrow>
            model source_device = model target_device"
    by code_simp
  then obtain source_device target_device source_ports target_ports w1 where
    read: "migrate_read ?E ''key'' False True ''Q2-A'' ''Q2-B'' no_events =
             (Inr (source_device, target_device, source_ports, target_ports), w1)"
    and same: "model source_device = model target_device"
    by (auto split: prod.splits sum.splits)
  have fails: "respond ?E (events w1) (cloneOrganizationSwitchDevices ''org-1'' ''Q2-A'' [''Q2-B'']) =
                 Inl (APIError ''500 Internal Server Error'')"
    by (simp add: example_api_def)
  from migrate_clone_failure_aborts [OF key read same, of "''org-1''"] fails
  have "migrate ?E ''key'' (Some ''org-1'') False True ''Q2-A'' ''Q2-B'' no_events =
        (Inl (ClickException (''Error cloning configuration from '' @ ''Q2-A'' @ '' to '' @ ''Q2-B'' @ ''.'')),
         w1\<lparr>events := events w1 @
            [Call (cloneOrganizationSwitchDevices ''org-1'' ''Q2-A'' [''Q2-B''])]\<rparr>)"
    by auto
  then show ?thesis using key read same by auto
qed

text \<open>
  The claim as stated fails on this run: both switches are of model MS120-8, an
  organization identifier is given and the clone call raises. The run ends with the
  clone's \<open>ClickException\<close> and its last event is the clone call.
\<close>

theorem migrate_clone_failure_counterexample:
  "fst (migrate (example_api example_device is_clone) ''key'' (Some ''org-2'') True True
          ''Q2-A'' ''Q2-B'' no_events) =
     Inl (ClickException ''Error cloning configuration from Q2-A to Q2-B.'') \<and>
   events (snd (migrate (example_api example_device is_clone) ''key'' (Some ''org-2'') True True
          ''Q2-A'' ''Q2-B'' no_events)) =
     [Call (DashboardAPI ''key'' True), Call (getDevice ''Q2-A''), Call (getDevice ''Q2-B''),
      Call (getDeviceSwitchPorts ''Q2-A''), Call (getDeviceSwitchPorts ''Q2-B''),
      Call (cloneOrganizationSwitchDevices ''org-2'' ''Q2-A'' [''Q2-B''])]"
  by code_simp

end
